theory Spec2Isabelle
  imports Main "HOL-Library.AList" "HOL-Library.Product_Lexorder"
begin

section \<open>Carbon emission tracking: document store and record cache\<close>

text \<open>
  The development follows \<^verbatim>\<open>src/data.py\<close> (the SQL-backed variant, from its line 73 on)
  and, where a claim cites it, the JSON-file variant \<^verbatim>\<open>src/main.py\<close>. Widgets, message
  boxes and logging are left out; every other statement of a modelled function is a
  branch of its definition. Exceptions are values of \<open>pyerr\<close>.
\<close>

datatype pyerr = ValueError | TypeError | OverflowError | IndexError | FileNotFoundError

subsection \<open>Python library functions the code calls\<close>

text \<open>
  \<^verbatim>\<open>str.strip()\<close> removes leading and trailing whitespace. Characters are bytes here,
  so the whitespace set is the ASCII one: tab, line feed, vertical tab, form feed,
  carriage return, the four separators \<open>0x1C..0x1F\<close> and the blank.
\<close>

definition is_space :: "char \<Rightarrow> bool" where
  "is_space c = ((of_char c :: nat) \<in> {9, 10, 11, 12, 13, 28, 29, 30, 31, 32})"

definition strip :: "string \<Rightarrow> string" where
  "strip s = rev (dropWhile is_space (rev (dropWhile is_space s)))"

text \<open>
  \<^verbatim>\<open>float(s)\<close> skips a smaller set of characters around the literal: tab, line feed,
  vertical tab, form feed, carriage return and the blank. The separators
  \<open>0x1C..0x1F\<close> are not skipped: \<^verbatim>\<open>float('\x1c7')\<close> raises \<^verbatim>\<open>ValueError\<close>.
\<close>

definition is_float_space :: "char \<Rightarrow> bool" where
  "is_float_space c = ((of_char c :: nat) \<in> {9, 10, 11, 12, 13, 32})"

definition float_strip :: "string \<Rightarrow> string" where
  "float_strip s = rev (dropWhile is_float_space (rev (dropWhile is_float_space s)))"

text \<open>
  Binary floating point is not modelled. The arithmetic the code delegates to Python
  and to the SQL driver is a parameter of the model, a record of functions:
  \<^item> \<open>float_core\<close>: \<^verbatim>\<open>float(s)\<close> on a non-empty string that neither starts nor ends
    with a character \<^verbatim>\<open>float\<close> skips (\<open>None\<close> for \<^verbatim>\<open>ValueError\<close>);
  \<^item> \<open>fmul\<close>: \<^verbatim>\<open>x * y\<close>, which can raise (\<^verbatim>\<open>TypeError\<close> for a factor that is no
    number, \<^verbatim>\<open>OverflowError\<close> for an integer too large to convert);
  \<^item> \<open>fmt2\<close>: the format \<^verbatim>\<open>f"{x:.2f}"\<close>, which can raise as well;
  \<^item> \<open>str_num\<close>: \<^verbatim>\<open>str(x)\<close> of a number;
  \<^item> \<open>zero\<close>: the number \<^verbatim>\<open>0\<close>;
  \<^item> \<open>to_numeric\<close>: a float bound to a \<^verbatim>\<open>NUMERIC(18,4)\<close> column by an INSERT
    (\<open>None\<close> when the driver raises);
  \<^item> \<open>text_to_numeric\<close>: a string bound to such a column by an UPDATE;
  \<^item> \<open>str_numeric\<close>: \<^verbatim>\<open>str(x)\<close> of the value a SELECT returns for such a column.
\<close>

record ('f, 'n) pylib =
  float_core :: "string \<Rightarrow> 'f option"
  fmul :: "'f \<Rightarrow> 'f \<Rightarrow> pyerr + 'f"
  fmt2 :: "'f \<Rightarrow> pyerr + string"
  str_num :: "'f \<Rightarrow> string"
  zero :: "'f"
  to_numeric :: "'f \<Rightarrow> 'n option"
  text_to_numeric :: "string \<Rightarrow> 'n option"
  str_numeric :: "'n \<Rightarrow> string"

text \<open>
  \<^verbatim>\<open>float(s)\<close> raises \<^verbatim>\<open>ValueError\<close> on a string that is empty or holds only
  characters it skips; what it does on the rest is the parameter's.
\<close>

definition py_float :: "('f, 'n) pylib \<Rightarrow> string \<Rightarrow> pyerr + 'f" where
  "py_float L s =
     (let t = float_strip s in
      if t = [] then Inl ValueError
      else (case float_core L t of None \<Rightarrow> Inl ValueError | Some x \<Rightarrow> Inr x))"

subsection \<open>The total of a record\<close>

text \<open>
  \<^verbatim>\<open>
  def update_total_value(factor, value_str):
      try:
          v = float(value_str)
          return f"{factor * v:.2f}"
      except:
          return "0.00"
  \<close>
  The body of the \<^verbatim>\<open>try\<close> is \<open>update_total_value_try\<close>: the conversion, the product
  and the format can each raise. The result of \<open>update_total_value\<close> keeps the error
  channel, so that what the bare \<^verbatim>\<open>except\<close> does is a property and not a matter of
  the type: \<open>Inl e\<close> would be an exception that leaves the function.
\<close>

definition update_total_value_try :: "('f, 'n) pylib \<Rightarrow> 'f \<Rightarrow> string \<Rightarrow> pyerr + string" where
  "update_total_value_try L factor value_str =
     (case py_float L value_str of
        Inl e \<Rightarrow> Inl e
      | Inr v \<Rightarrow>
          (case fmul L factor v of
             Inl e \<Rightarrow> Inl e
           | Inr p \<Rightarrow> fmt2 L p))"

definition update_total_value :: "('f, 'n) pylib \<Rightarrow> 'f \<Rightarrow> string \<Rightarrow> pyerr + string" where
  "update_total_value L factor value_str =
     (case update_total_value_try L factor value_str of
        Inl e \<Rightarrow> Inr ''0.00''
      | Inr s \<Rightarrow> Inr s)"

subsection \<open>Decimal numerals and calendar dates\<close>

definition is_digit :: "char \<Rightarrow> bool" where
  "is_digit c = (48 \<le> (of_char c :: nat) \<and> (of_char c :: nat) \<le> 57)"

definition digit_val :: "char \<Rightarrow> nat" where
  "digit_val c = of_char c - 48"

definition digit_char :: "nat \<Rightarrow> char" where
  "digit_char d = char_of (48 + d)"

text \<open>\<^verbatim>\<open>str(n)\<close> of a natural number, as the f-string \<^verbatim>\<open>f"..._v{version}..."\<close> renders it.\<close>

fun str_nat :: "nat \<Rightarrow> string" where
  "str_nat n = (if n < 10 then [digit_char n] else str_nat (n div 10) @ [digit_char (n mod 10)])"

declare str_nat.simps [simp del]

text \<open>Zero padding to a width, as \<^verbatim>\<open>strftime\<close> does for \<^verbatim>\<open>%d\<close>, \<^verbatim>\<open>%m\<close> and \<^verbatim>\<open>%Y\<close>.\<close>

definition zpad :: "nat \<Rightarrow> nat \<Rightarrow> string" where
  "zpad w n = replicate (w - length (str_nat n)) CHR ''0'' @ str_nat n"

definition leap :: "nat \<Rightarrow> bool" where
  "leap y = (y mod 4 = 0 \<and> (y mod 100 \<noteq> 0 \<or> y mod 400 = 0))"

definition days_in_month :: "nat \<Rightarrow> nat \<Rightarrow> nat" where
  "days_in_month y m =
     (if m = 2 then (if leap y then 29 else 28)
      else if m = 4 \<or> m = 6 \<or> m = 9 \<or> m = 11 then 30 else 31)"

text \<open>What \<^verbatim>\<open>datetime(year, month, day)\<close> accepts.\<close>

definition valid_date :: "nat \<Rightarrow> nat \<Rightarrow> nat \<Rightarrow> bool" where
  "valid_date y m d = (1 \<le> y \<and> y \<le> 9999 \<and> 1 \<le> m \<and> m \<le> 12 \<and> 1 \<le> d \<and> d \<le> days_in_month y m)"

text \<open>
  \<^verbatim>\<open>datetime.strptime(s, "%Y-%m-%d")\<close>. The library turns the format into the regular
  expression \<^verbatim>\<open>(\d\d\d\d)-(1[0-2]|0[1-9]|[1-9])-(3[0-1]|[1-2]\d|0[1-9]|[1-9]| [1-9])\<close>,
  matches it at the start of the string, raises \<^verbatim>\<open>ValueError\<close> when there is no match or
  when text is left over, and then builds the date, which raises \<^verbatim>\<open>ValueError\<close> for year 0
  and for a day the month does not have. \<open>match_month\<close> and \<open>match_day\<close> are the two
  alternations, tried in the order written (digits are the ASCII ones).
\<close>

fun match_month :: "string \<Rightarrow> (nat \<times> string) option" where
  "match_month (a # b # rest) =
     (if a = CHR ''1'' \<and> (b = CHR ''0'' \<or> b = CHR ''1'' \<or> b = CHR ''2'') then Some (10 + digit_val b, rest)
      else if a = CHR ''0'' \<and> is_digit b \<and> b \<noteq> CHR ''0'' then Some (digit_val b, rest)
      else if is_digit a \<and> a \<noteq> CHR ''0'' then Some (digit_val a, b # rest)
      else None)"
| "match_month [a] = (if is_digit a \<and> a \<noteq> CHR ''0'' then Some (digit_val a, []) else None)"
| "match_month [] = None"

fun match_day :: "string \<Rightarrow> (nat \<times> string) option" where
  "match_day (a # b # rest) =
     (if a = CHR ''3'' \<and> (b = CHR ''0'' \<or> b = CHR ''1'') then Some (30 + digit_val b, rest)
      else if (a = CHR ''1'' \<or> a = CHR ''2'') \<and> is_digit b then Some (10 * digit_val a + digit_val b, rest)
      else if a = CHR ''0'' \<and> is_digit b \<and> b \<noteq> CHR ''0'' then Some (digit_val b, rest)
      else if is_digit a \<and> a \<noteq> CHR ''0'' then Some (digit_val a, b # rest)
      else if a = CHR '' '' \<and> is_digit b \<and> b \<noteq> CHR ''0'' then Some (digit_val b, rest)
      else None)"
| "match_day [a] = (if is_digit a \<and> a \<noteq> CHR ''0'' then Some (digit_val a, []) else None)"
| "match_day [] = None"

type_synonym date = "nat \<times> nat \<times> nat"

definition make_date :: "nat \<Rightarrow> nat \<Rightarrow> nat \<Rightarrow> pyerr + date" where
  "make_date y m d = (if valid_date y m d then Inr (y, m, d) else Inl ValueError)"

fun strptime_ymd :: "string \<Rightarrow> pyerr + date" where
  "strptime_ymd (y1 # y2 # y3 # y4 # sep1 # rest) =
     (if is_digit y1 \<and> is_digit y2 \<and> is_digit y3 \<and> is_digit y4 \<and> sep1 = CHR ''-'' then
        (case match_month rest of
           None \<Rightarrow> Inl ValueError
         | Some (m, rest1) \<Rightarrow>
             (case rest1 of
                [] \<Rightarrow> Inl ValueError
              | sep2 # rest2 \<Rightarrow>
                  if sep2 = CHR ''-'' then
                    (case match_day rest2 of
                       None \<Rightarrow> Inl ValueError
                     | Some (d, rest3) \<Rightarrow>
                         if rest3 = [] then
                           make_date (1000 * digit_val y1 + 100 * digit_val y2 + 10 * digit_val y3 + digit_val y4) m d
                         else Inl ValueError)
                  else Inl ValueError))
      else Inl ValueError)"
| "strptime_ymd _ = Inl ValueError"


definition strftime_Y :: "date \<Rightarrow> string" where
  "strftime_Y dt = (case dt of (y, m, d) \<Rightarrow> zpad 4 y)"

definition month_name :: "nat \<Rightarrow> string" where
  "month_name m =
     [''January'', ''February'', ''March'', ''April'', ''May'', ''June'', ''July'',
      ''August'', ''September'', ''October'', ''November'', ''December''] ! (m - 1)"

definition strftime_m_B :: "date \<Rightarrow> string" where
  "strftime_m_B dt = (case dt of (y, m, d) \<Rightarrow> zpad 2 m @ ''_'' @ month_name m)"

definition strftime_Y_m_d :: "date \<Rightarrow> string" where
  "strftime_Y_m_d dt = (case dt of (y, m, d) \<Rightarrow> zpad 4 y @ ''-'' @ zpad 2 m @ ''-'' @ zpad 2 d)"

subsection \<open>Document store: naming\<close>


subsection \<open>An instance of the library parameters\<close>

text \<open>
  To run the model on concrete inputs the parameters are instantiated with the whole
  numbers from 0 on, written as a non-empty run of digits, optionally followed by a
  point and zeros. On these texts the instance does what Python and the driver do
  (below \<open>2^53\<close>, where the products are exact): \<^verbatim>\<open>float("100")\<close> is 100.0,
  \<^verbatim>\<open>f"{300.0:.2f}"\<close> is \<^verbatim>\<open>"300.00"\<close>, \<^verbatim>\<open>str(300.0)\<close> is \<^verbatim>\<open>"300.0"\<close>, and a
  \<^verbatim>\<open>NUMERIC(18,4)\<close> column comes back as \<^verbatim>\<open>Decimal("300.0000")\<close>. The instance is
  not Python's \<^verbatim>\<open>float\<close> on other texts: it rejects every text with a character that
  is neither a digit nor a point, among them the literals \<^verbatim>\<open>"-5"\<close>, \<^verbatim>\<open>"1e2"\<close> and
  \<^verbatim>\<open>"inf"\<close> that Python reads, and it rejects \<^verbatim>\<open>"2.5"\<close>. It is used only at texts
  of digits and at texts that hold a letter no float literal holds.
\<close>

definition nat_of_digits :: "string \<Rightarrow> nat" where
  "nat_of_digits s = foldl (\<lambda>a c. 10 * a + digit_val c) 0 s"

definition whole_literal :: "string \<Rightarrow> nat option" where
  "whole_literal s =
     (let ip = takeWhile is_digit s; rest = dropWhile is_digit s in
      if ip \<noteq> [] \<and> (rest = [] \<or> (hd rest = CHR ''.'' \<and> list_all (\<lambda>c. c = CHR ''0'') (tl rest)))
      then Some (nat_of_digits ip) else None)"

definition whole_lib :: "(nat, nat) pylib" where
  "whole_lib =
     \<lparr> float_core = whole_literal,
       fmul = (\<lambda>x y. Inr (x * y)),
       fmt2 = (\<lambda>x. Inr (str_nat x @ ''.00'')),
       str_num = (\<lambda>x. str_nat x @ ''.0''),
       zero = 0,
       to_numeric = Some,
       text_to_numeric = whole_literal,
       str_numeric = (\<lambda>x. str_nat x @ ''.0000'') \<rparr>"




subsection \<open>The record cache and its backing table\<close>

text \<open>
  An emission record is the 14-tuple of the source, \<^verbatim>\<open>r[0]\<close> to \<^verbatim>\<open>r[13]\<close> in the order
  of the fields below. \<^verbatim>\<open>r[13]\<close> is the integer \<^verbatim>\<open>record_id_counter\<close> in a record that
  a submission builds and the string \<^verbatim>\<open>str(row[13])\<close> in a loaded one; the code reads
  it only through \<^verbatim>\<open>str(r[13])\<close> and \<^verbatim>\<open>int(r[13])\<close>, so the model keeps the integer.
\<close>

record emission_record =
  rec_email :: string
  rec_entry_date :: string
  rec_month :: string
  rec_year :: string
  rec_unit :: string
  rec_category :: string
  rec_name :: string
  rec_type :: string
  rec_factor :: string
  rec_value :: string
  rec_total :: string
  rec_remarks :: string
  rec_document :: string
  rec_id :: int

text \<open>
  The table \<^verbatim>\<open>EmissionRecords\<close> of \<^verbatim>\<open>init_db\<close>: \<^verbatim>\<open>record_id INT IDENTITY(1,1) PRIMARY KEY\<close>,
  a \<^verbatim>\<open>DATE\<close> column, three \<^verbatim>\<open>NUMERIC(18,4)\<close> columns and text columns. The table is the
  list of its rows in insertion order together with the next identity value; the
  identity value is never handed out twice.
\<close>

record 'n db_row =
  db_email :: string
  db_entry_date :: date
  db_month :: string
  db_year :: string
  db_unit :: string
  db_category :: string
  db_name :: string
  db_type :: string
  db_factor :: 'n
  db_value :: 'n
  db_total :: 'n
  db_remarks :: string
  db_document :: string
  db_id :: int

record 'n database =
  db_rows :: "'n db_row list"
  db_identity :: int

text \<open>
  Every function that talks to the table opens a connection of its own. What the
  server does then is an input of the model: the connection is refused
  (\<^verbatim>\<open>connect_mssql\<close> returns \<^verbatim>\<open>None\<close>), or the statement or the commit raises, or
  all goes well. A statement that raised before the commit leaves the table as it was.
\<close>

datatype db_fault = No_fault | Connect_fails | Execute_fails

text \<open>
  The state of the application: the module-level list \<^verbatim>\<open>emission_records\<close>, the counter
  \<^verbatim>\<open>record_id_counter\<close>, the table, and the rows the table view of the record page shows.
\<close>

record 'n app_state =
  emission_records :: "emission_record list"
  record_id_counter :: int
  store :: "'n database"
  tree :: "emission_record list"

text \<open>What a handler tells the user: its message box, under the specification's names.\<close>

datatype outcome =
  Done | RecordNotFound | BackingStoreUnavailable | StoreOperationFailed | ValidationError

text \<open>
  \<^verbatim>\<open>save_emission_records\<close> (data.py 273-305). For every record of the cache, in order:
  the date is parsed, the three numeric texts go through \<^verbatim>\<open>float\<close>, and the row is
  inserted without a \<^verbatim>\<open>record_id\<close>, so the table assigns the identity value. A record
  for which any of this raises is skipped (\<^verbatim>\<open>continue\<close>).
\<close>

definition row_of_record :: "('f, 'n) pylib \<Rightarrow> emission_record \<Rightarrow> int \<Rightarrow> 'n db_row option" where
  "row_of_record L r ident =
     (case strptime_ymd (rec_entry_date r) of
        Inl e \<Rightarrow> None
      | Inr dt \<Rightarrow>
          (case (py_float L (rec_factor r), py_float L (rec_value r), py_float L (rec_total r)) of
             (Inr f, Inr v, Inr t) \<Rightarrow>
               (case (to_numeric L f, to_numeric L v, to_numeric L t) of
                  (Some nf, Some nv, Some nt) \<Rightarrow>
                    Some \<lparr> db_email = rec_email r, db_entry_date = dt, db_month = rec_month r,
                           db_year = rec_year r, db_unit = rec_unit r, db_category = rec_category r,
                           db_name = rec_name r, db_type = rec_type r, db_factor = nf, db_value = nv,
                           db_total = nt, db_remarks = rec_remarks r, db_document = rec_document r,
                           db_id = ident \<rparr>
                | _ \<Rightarrow> None)
           | _ \<Rightarrow> None))"

definition insert_record :: "('f, 'n) pylib \<Rightarrow> emission_record \<Rightarrow> 'n database \<Rightarrow> 'n database" where
  "insert_record L r db =
     (case row_of_record L r (db_identity db) of
        None \<Rightarrow> db
      | Some row \<Rightarrow> db \<lparr> db_rows := db_rows db @ [row], db_identity := db_identity db + 1 \<rparr>)"

fun insert_all :: "('f, 'n) pylib \<Rightarrow> emission_record list \<Rightarrow> 'n database \<Rightarrow> 'n database" where
  "insert_all L [] db = db"
| "insert_all L (r # rs) db = insert_all L rs (insert_record L r db)"

definition save_emission_records :: "('f, 'n) pylib \<Rightarrow> db_fault \<Rightarrow> 'n app_state \<Rightarrow> 'n app_state" where
  "save_emission_records L fault st =
     (case fault of
        Connect_fails \<Rightarrow> st
      | Execute_fails \<Rightarrow> st
      | No_fault \<Rightarrow> st \<lparr> store := insert_all L (emission_records st) (store st) \<rparr>)"

text \<open>
  \<^verbatim>\<open>load_emission_records\<close> (data.py 307-343). The rows come back ordered by
  \<^verbatim>\<open>entry_date DESC, record_id DESC\<close>. The list is cleared only after \<^verbatim>\<open>fetchall\<close> has
  returned; the counter is set only when the new list is not empty.
\<close>

definition record_of_row :: "('f, 'n) pylib \<Rightarrow> 'n db_row \<Rightarrow> emission_record" where
  "record_of_row L row =
     \<lparr> rec_email = db_email row, rec_entry_date = strftime_Y_m_d (db_entry_date row),
       rec_month = db_month row, rec_year = db_year row, rec_unit = db_unit row,
       rec_category = db_category row, rec_name = db_name row, rec_type = db_type row,
       rec_factor = str_numeric L (db_factor row), rec_value = str_numeric L (db_value row),
       rec_total = str_numeric L (db_total row), rec_remarks = db_remarks row,
       rec_document = db_document row, rec_id = db_id row \<rparr>"

definition select_all :: "'n database \<Rightarrow> 'n db_row list" where
  "select_all db = rev (sort_key (\<lambda>row. (db_entry_date row, db_id row)) (db_rows db))"

fun max_id :: "emission_record list \<Rightarrow> int" where
  "max_id [] = 0"
| "max_id [r] = rec_id r"
| "max_id (r # rs) = max (rec_id r) (max_id rs)"

definition load_emission_records :: "('f, 'n) pylib \<Rightarrow> db_fault \<Rightarrow> 'n app_state \<Rightarrow> 'n app_state" where
  "load_emission_records L fault st =
     (case fault of
        Connect_fails \<Rightarrow> st
      | Execute_fails \<Rightarrow> st
      | No_fault \<Rightarrow>
          (let recs = map (record_of_row L) (select_all (store st)) in
           st \<lparr> emission_records := recs,
                record_id_counter := (if recs \<noteq> [] then max_id recs + 1 else record_id_counter st) \<rparr>))"

text \<open>
  \<^verbatim>\<open>EmissionDataPage.refresh_table(records=None)\<close> (data.py 1059-1067) reloads the cache
  and then shows the rows it was given, or the cache when it was given none.
\<close>

definition refresh_table ::
  "('f, 'n) pylib \<Rightarrow> db_fault \<Rightarrow> emission_record list option \<Rightarrow> 'n app_state \<Rightarrow> 'n app_state" where
  "refresh_table L fault records st =
     (let st' = load_emission_records L fault st in
      st' \<lparr> tree := (case records of None \<Rightarrow> emission_records st' | Some rs \<Rightarrow> rs) \<rparr>)"

text \<open>
  \<^verbatim>\<open>EmissionDataPage.apply_filters\<close> (data.py 1091-1102): the loop over the cache, then
  \<^verbatim>\<open>self.refresh_table(filtered)\<close>.
\<close>

record filter_vars =
  flt_unit :: string
  flt_month :: string
  flt_year :: string
  flt_emission_category :: string
  flt_emission_name :: string
  flt_emission_type :: string

definition filter_test :: "filter_vars \<Rightarrow> emission_record \<Rightarrow> bool" where
  "filter_test flts r =
     ((flt_unit flts = ''All'' \<or> rec_unit r = flt_unit flts) \<and>
      (flt_month flts = ''All'' \<or> rec_month r = flt_month flts) \<and>
      (flt_year flts = ''All'' \<or> rec_year r = flt_year flts) \<and>
      (flt_emission_category flts = ''All'' \<or> rec_category r = flt_emission_category flts) \<and>
      (flt_emission_name flts = ''All'' \<or> rec_name r = flt_emission_name flts) \<and>
      (flt_emission_type flts = ''All'' \<or> rec_type r = flt_emission_type flts))"

fun filter_loop :: "filter_vars \<Rightarrow> emission_record list \<Rightarrow> emission_record list \<Rightarrow> emission_record list" where
  "filter_loop flts [] filtered = filtered"
| "filter_loop flts (r # rs) filtered =
     filter_loop flts rs (if filter_test flts r then filtered @ [r] else filtered)"

definition apply_filters ::
  "('f, 'n) pylib \<Rightarrow> db_fault \<Rightarrow> filter_vars \<Rightarrow> 'n app_state \<Rightarrow> 'n app_state" where
  "apply_filters L fault flts st =
     refresh_table L fault (Some (filter_loop flts (emission_records st) [])) st"

text \<open>
  \<^verbatim>\<open>EmissionDataPage.edit_record\<close> (data.py 1120-1143) looks for the first record with
  the selected id and opens the dialog on it and its index, or reports
  \<^verbatim>\<open>"Record not found."\<close>.
\<close>

fun find_record :: "int \<Rightarrow> emission_record list \<Rightarrow> nat \<Rightarrow> (emission_record \<times> nat) option" where
  "find_record record_id [] i = None"
| "find_record record_id (r # rs) i =
     (if rec_id r = record_id then Some (r, i) else find_record record_id rs (Suc i))"

definition edit_record :: "'n app_state \<Rightarrow> int \<Rightarrow> outcome + (emission_record \<times> nat)" where
  "edit_record st record_id =
     (case find_record record_id (emission_records st) 0 of
        None \<Rightarrow> Inl RecordNotFound
      | Some found \<Rightarrow> Inr found)"

text \<open>
  \<^verbatim>\<open>EmissionDataPage.delete_record\<close> (data.py 1145-1179), for the selected id: the
  \<^verbatim>\<open>DELETE\<close> statement and its commit, then the list comprehension on the cache, the
  success message and \<^verbatim>\<open>refresh_table()\<close>, which opens a connection of its own. There
  is no test for whether a row or a record had the id.
\<close>

definition delete_rows :: "int \<Rightarrow> 'n database \<Rightarrow> 'n database" where
  "delete_rows record_id db = db \<lparr> db_rows := filter (\<lambda>row. db_id row \<noteq> record_id) (db_rows db) \<rparr>"

definition delete_record ::
  "('f, 'n) pylib \<Rightarrow> db_fault \<Rightarrow> db_fault \<Rightarrow> int \<Rightarrow> 'n app_state \<Rightarrow> outcome \<times> 'n app_state" where
  "delete_record L fault fault_refresh record_id st =
     (case fault of
        Connect_fails \<Rightarrow> (BackingStoreUnavailable, st)
      | Execute_fails \<Rightarrow> (StoreOperationFailed, st)
      | No_fault \<Rightarrow>
          (Done,
           refresh_table L fault_refresh None
             (st \<lparr> store := delete_rows record_id (store st),
                   emission_records := filter (\<lambda>r. rec_id r \<noteq> record_id) (emission_records st) \<rparr>)))"

text \<open>
  \<^verbatim>\<open>EditDialog.save_changes\<close> (data.py 1217-1281), for the record and index the dialog
  was opened on and the ten entry fields \<^verbatim>\<open>vars[0]\<close> to \<^verbatim>\<open>vars[9]\<close>. The new tuple is
  built first. The \<^verbatim>\<open>UPDATE\<close> binds the three numeric fields as texts, which the
  server converts; it and the commit come before the assignment to the list, which
  raises \<^verbatim>\<open>IndexError\<close> for an index past the end.
\<close>

record edit_vars =
  var_unit :: string
  var_month :: string
  var_year :: string
  var_category :: string
  var_name :: string
  var_type :: string
  var_factor :: string
  var_value :: string
  var_remarks :: string
  var_document :: string

definition update_rows :: "('f, 'n) pylib \<Rightarrow> emission_record \<Rightarrow> 'n database \<Rightarrow> 'n database option" where
  "update_rows L u db =
     (case (text_to_numeric L (rec_factor u), text_to_numeric L (rec_value u), text_to_numeric L (rec_total u)) of
        (Some nf, Some nv, Some nt) \<Rightarrow>
          Some (db \<lparr> db_rows :=
            map (\<lambda>row. if db_id row = rec_id u
                        then row \<lparr> db_month := rec_month u, db_year := rec_year u, db_unit := rec_unit u,
                                   db_category := rec_category u, db_name := rec_name u,
                                   db_type := rec_type u, db_factor := nf, db_value := nv,
                                   db_total := nt, db_remarks := rec_remarks u,
                                   db_document := rec_document u \<rparr>
                        else row) (db_rows db) \<rparr>)
      | _ \<Rightarrow> None)"

definition updated_record :: "('f, 'n) pylib \<Rightarrow> emission_record \<Rightarrow> edit_vars \<Rightarrow> 'f \<Rightarrow> string \<Rightarrow> emission_record" where
  "updated_record L r vars factor total_text =
     \<lparr> rec_email = rec_email r, rec_entry_date = rec_entry_date r, rec_month = var_month vars,
       rec_year = var_year vars, rec_unit = var_unit vars, rec_category = var_category vars,
       rec_name = var_name vars, rec_type = var_type vars, rec_factor = str_num L factor,
       rec_value = var_value vars, rec_total = total_text, rec_remarks = var_remarks vars,
       rec_document = var_document vars, rec_id = rec_id r \<rparr>"

definition save_changes ::
  "('f, 'n) pylib \<Rightarrow> db_fault \<Rightarrow> db_fault \<Rightarrow> emission_record \<times> nat \<Rightarrow> edit_vars \<Rightarrow> 'n app_state
     \<Rightarrow> outcome \<times> 'n app_state" where
  "save_changes L fault fault_refresh dialog vars st =
     (case dialog of (r, rec_index) \<Rightarrow>
        (case py_float L (var_factor vars) of
           Inl e \<Rightarrow> (ValidationError, st)
         | Inr factor \<Rightarrow>
             (case update_total_value L factor (var_value vars) of
                Inl e \<Rightarrow> (ValidationError, st)
              | Inr total_text \<Rightarrow>
                  (let updated = updated_record L r vars factor total_text in
                   case fault of
                     Connect_fails \<Rightarrow> (BackingStoreUnavailable, st)
                   | Execute_fails \<Rightarrow> (StoreOperationFailed, st)
                   | No_fault \<Rightarrow>
                       (case update_rows L updated (store st) of
                          None \<Rightarrow> (StoreOperationFailed, st)
                        | Some db' \<Rightarrow>
                            if rec_index < length (emission_records st)
                            then (Done,
                                  refresh_table L fault_refresh None
                                    (st \<lparr> store := db',
                                          emission_records := (emission_records st)[rec_index := updated] \<rparr>))
                            else (StoreOperationFailed, st \<lparr> store := db' \<rparr>))))))"

text \<open>
  The specification's \<^verbatim>\<open>update(record_id, field_changes)\<close> is the two handlers in a
  row: the lookup of \<open>edit_record\<close>, then \<open>save_changes\<close> on what it found.
\<close>

definition update_by_id ::
  "('f, 'n) pylib \<Rightarrow> db_fault \<Rightarrow> db_fault \<Rightarrow> int \<Rightarrow> edit_vars \<Rightarrow> 'n app_state \<Rightarrow> outcome \<times> 'n app_state" where
  "update_by_id L fault fault_refresh record_id vars st =
     (case edit_record st record_id of
        Inl failure \<Rightarrow> (failure, st)
      | Inr dialog \<Rightarrow> save_changes L fault fault_refresh dialog vars st)"

subsection \<open>The JSON-file variant of the update\<close>

text \<open>
  \<^verbatim>\<open>src/main.py\<close> keeps 11-tuples (\<^verbatim>\<open>r[0]\<close> to \<^verbatim>\<open>r[10]\<close>, in the order below) and writes
  the whole list to a JSON file. \<^verbatim>\<open>save_emission_records\<close> (main.py 39-45) catches and logs
  a failed write. \<^verbatim>\<open>EditDialog.save_changes\<close> (main.py 795-805) assigns to the list first
  and saves afterwards; its \<^verbatim>\<open>float(...)\<close> is outside every \<^verbatim>\<open>try\<close>, so a factor that
  does not parse ends the handler before anything is changed.
\<close>

record json_record =
  jr_email :: string
  jr_entry_date :: string
  jr_month :: string
  jr_unit :: string
  jr_category :: string
  jr_name :: string
  jr_factor :: string
  jr_amount :: string
  jr_total :: string
  jr_document :: string
  jr_id :: int

record json_state =
  json_records :: "json_record list"
  json_file :: "json_record list option"

record json_vars =
  jv_unit :: string
  jv_month :: string
  jv_category :: string
  jv_name :: string
  jv_factor :: string
  jv_amount :: string
  jv_document :: string

definition save_emission_records_json :: "bool \<Rightarrow> json_state \<Rightarrow> json_state" where
  "save_emission_records_json write_fails st =
     (if write_fails then st else st \<lparr> json_file := Some (json_records st) \<rparr>)"

definition save_changes_json ::
  "('f, 'n) pylib \<Rightarrow> bool \<Rightarrow> nat \<Rightarrow> json_vars \<Rightarrow> json_state \<Rightarrow> pyerr + json_state" where
  "save_changes_json L write_fails rec_index vars st =
     (case py_float L (jv_factor vars) of
        Inl e \<Rightarrow> Inl e
      | Inr factor \<Rightarrow>
          (case update_total_value L factor (jv_amount vars) of
             Inl e \<Rightarrow> Inl e
           | Inr total_text \<Rightarrow>
               if rec_index < length (json_records st) then
                 (let original = json_records st ! rec_index;
                      updated = \<lparr> jr_email = jr_email original, jr_entry_date = jr_entry_date original,
                                  jr_month = jv_month vars, jr_unit = jv_unit vars,
                                  jr_category = jv_category vars, jr_name = jv_name vars,
                                  jr_factor = jv_factor vars, jr_amount = jv_amount vars,
                                  jr_total = total_text, jr_document = jv_document vars,
                                  jr_id = jr_id original \<rparr>
                  in Inr (save_emission_records_json write_fails
                            (st \<lparr> json_records := (json_records st)[rec_index := updated] \<rparr>)))
               else Inl IndexError))"

subsection \<open>Sample data\<close>

text \<open>
  The state in which the application starts (data.py 110-112: an empty list, the
  counter 0) over a given table, the filter variables as the page sets them up
  (every one \<^verbatim>\<open>"All"\<close>), and records, rows and entry fields to run the model on.
\<close>

definition initial_state :: "'n database \<Rightarrow> 'n app_state" where
  "initial_state db = \<lparr> emission_records = [], record_id_counter = 0, store = db, tree = [] \<rparr>"

definition empty_table :: "nat database" where
  "empty_table = \<lparr> db_rows = [], db_identity = 1 \<rparr>"

definition all_filters :: filter_vars where
  "all_filters =
     \<lparr> flt_unit = ''All'', flt_month = ''All'', flt_year = ''All'', flt_emission_category = ''All'',
       flt_emission_name = ''All'', flt_emission_type = ''All'' \<rparr>"

definition sample_record :: "string \<Rightarrow> string \<Rightarrow> string \<Rightarrow> int \<Rightarrow> emission_record" where
  "sample_record unit_name value_text total_text ident =
     \<lparr> rec_email = ''manager@gmail.com'', rec_entry_date = ''2025-03-07'', rec_month = ''March'',
       rec_year = ''2025'', rec_unit = unit_name, rec_category = ''Scope2'',
       rec_name = ''Electricity'', rec_type = ''Electricity'', rec_factor = ''3'',
       rec_value = value_text, rec_total = total_text, rec_remarks = [],
       rec_document = ''receipt.pdf'', rec_id = ident \<rparr>"

definition sample_row :: "string \<Rightarrow> nat \<Rightarrow> int \<Rightarrow> nat db_row" where
  "sample_row unit_name amount ident =
     \<lparr> db_email = ''manager@gmail.com'', db_entry_date = (2025, 3, 7), db_month = ''March'',
       db_year = ''2025'', db_unit = unit_name, db_category = ''Scope2'',
       db_name = ''Electricity'', db_type = ''Electricity'', db_factor = 3,
       db_value = amount, db_total = 3 * amount, db_remarks = [],
       db_document = ''receipt.pdf'', db_id = ident \<rparr>"

definition sample_vars :: "string \<Rightarrow> edit_vars" where
  "sample_vars value_text =
     \<lparr> var_unit = ''C-49'', var_month = ''March'', var_year = ''2025'', var_category = ''Scope2'',
       var_name = ''Electricity'', var_type = ''Electricity'', var_factor = ''3'',
       var_value = value_text, var_remarks = [], var_document = ''receipt.pdf'' \<rparr>"

definition sample_json_record :: "string \<Rightarrow> string \<Rightarrow> int \<Rightarrow> json_record" where
  "sample_json_record amount_text total_text ident =
     \<lparr> jr_email = ''manager@gmail.com'', jr_entry_date = ''2025-03-07'', jr_month = ''March'',
       jr_unit = ''C-49'', jr_category = ''Electricity'', jr_name = ''Electricity'',
       jr_factor = ''3'', jr_amount = amount_text, jr_total = total_text,
       jr_document = ''receipt.pdf'', jr_id = ident \<rparr>"

definition sample_json_vars :: "string \<Rightarrow> json_vars" where
  "sample_json_vars amount_text =
     \<lparr> jv_unit = ''C-49'', jv_month = ''March'', jv_category = ''Electricity'',
       jv_name = ''Electricity'', jv_factor = ''3'', jv_amount = amount_text,
       jv_document = ''receipt.pdf'' \<rparr>"

subsection \<open>The data entry form and the submission\<close>

text \<open>
  \<^verbatim>\<open>DataEntryPage\<close> (data.py 1284-1575). A row of the fuel or of the refrigerant frame
  holds the name and the factor from the configuration, the text of the amount entry,
  the text of the total label, the remarks and the path of the uploaded file. The form
  holds the common fields, the two lists of rows in the order of \<^verbatim>\<open>self.fuel_types\<close> and
  \<^verbatim>\<open>self.refrig_types\<close>, and the electricity fields.
\<close>

record 'f form_row =
  fr_name :: string
  fr_factor :: 'f
  fr_amount :: string
  fr_total_label :: string
  fr_remarks :: string
  fr_file :: string

record 'f entry_form =
  ef_unit :: string
  ef_month :: string
  ef_year :: string
  ef_entry_date :: string
  ef_email :: string
  ef_fuels :: "'f form_row list"
  ef_refrigs :: "'f form_row list"
  ef_elec_factor :: 'f
  ef_elec_amount :: string
  ef_elec_remarks :: string
  ef_elec_file :: string

text \<open>
  The two loops of \<^verbatim>\<open>submit_data_handler\<close> over the rows (data.py 1517-1545): a row
  whose stripped amount is not empty gives a record with the total read from the
  label and the id \<^verbatim>\<open>record_id_counter\<close>, which is then incremented.
\<close>

definition row_record ::
  "('f, 'n) pylib \<Rightarrow> 'f entry_form \<Rightarrow> string \<Rightarrow> string \<Rightarrow> 'f form_row \<Rightarrow> int \<Rightarrow> emission_record" where
  "row_record L form category name row counter =
     \<lparr> rec_email = ef_email form, rec_entry_date = ef_entry_date form,
       rec_month = strip (ef_month form), rec_year = strip (ef_year form),
       rec_unit = strip (ef_unit form), rec_category = category, rec_name = name,
       rec_type = fr_name row, rec_factor = str_num L (fr_factor row),
       rec_value = strip (fr_amount row), rec_total = fr_total_label row,
       rec_remarks = strip (fr_remarks row), rec_document = fr_file row, rec_id = counter \<rparr>"

fun rows_records ::
  "('f, 'n) pylib \<Rightarrow> 'f entry_form \<Rightarrow> string \<Rightarrow> string \<Rightarrow> 'f form_row list \<Rightarrow> int
     \<Rightarrow> emission_record list \<times> int" where
  "rows_records L form category name [] counter = ([], counter)"
| "rows_records L form category name (row # rows) counter =
     (if strip (fr_amount row) \<noteq> [] then
        (case rows_records L form category name rows (counter + 1) of
           (recs, counter') \<Rightarrow> (row_record L form category name row counter # recs, counter'))
      else rows_records L form category name rows counter)"

text \<open>The checks before the records are built (data.py 1499-1512).\<close>

definition rows_documented :: "'f form_row list \<Rightarrow> bool" where
  "rows_documented rows = list_all (\<lambda>row. strip (fr_amount row) = [] \<or> fr_file row \<noteq> []) rows"

definition form_valid :: "'f entry_form \<Rightarrow> bool" where
  "form_valid form =
     (strip (ef_unit form) \<noteq> [] \<and> strip (ef_month form) \<noteq> [] \<and> strip (ef_year form) \<noteq> [] \<and>
      ef_entry_date form \<noteq> [] \<and>
      rows_documented (ef_fuels form) \<and> rows_documented (ef_refrigs form) \<and>
      (strip (ef_elec_amount form) = [] \<or> ef_elec_file form \<noteq> []))"

text \<open>
  The records of one submission and the counter after it (data.py 1514-1559): fuels,
  then refrigerants, then electricity, whose total is computed on the spot. An
  exception of that computation would leave the handler with the counter already
  advanced by the rows before it.
\<close>

definition new_records ::
  "('f, 'n) pylib \<Rightarrow> 'f entry_form \<Rightarrow> int \<Rightarrow> pyerr \<times> int + emission_record list \<times> int" where
  "new_records L form counter =
     (case rows_records L form ''Scope1'' ''Fuel'' (ef_fuels form) counter of
        (fuel_recs, c1) \<Rightarrow>
          (case rows_records L form ''Scope1'' ''Refrigerants'' (ef_refrigs form) c1 of
             (refrig_recs, c2) \<Rightarrow>
               if strip (ef_elec_amount form) \<noteq> [] then
                 (case update_total_value L (ef_elec_factor form) (strip (ef_elec_amount form)) of
                    Inl e \<Rightarrow> Inl (e, c2)
                  | Inr tot \<Rightarrow>
                      Inr (fuel_recs @ refrig_recs @
                             [\<lparr> rec_email = ef_email form, rec_entry_date = ef_entry_date form,
                                rec_month = strip (ef_month form), rec_year = strip (ef_year form),
                                rec_unit = strip (ef_unit form), rec_category = ''Scope2'',
                                rec_name = ''Electricity'', rec_type = ''Electricity'',
                                rec_factor = str_num L (ef_elec_factor form),
                                rec_value = strip (ef_elec_amount form), rec_total = tot,
                                rec_remarks = strip (ef_elec_remarks form),
                                rec_document = ef_elec_file form, rec_id = c2 \<rparr>],
                           c2 + 1))
               else Inr (fuel_recs @ refrig_recs, c2)))"

text \<open>
  \<^verbatim>\<open>submit_data_handler\<close> (data.py 1492-1575): the checks, the new records, and when
  there are some, \<^verbatim>\<open>emission_records.extend(new_records)\<close>, \<^verbatim>\<open>save_emission_records()\<close>,
  \<^verbatim>\<open>load_emission_records()\<close> and the refresh of the record page, each on a connection
  of its own.
\<close>

definition submit_data_handler ::
  "('f, 'n) pylib \<Rightarrow> db_fault \<Rightarrow> db_fault \<Rightarrow> db_fault \<Rightarrow> 'f entry_form \<Rightarrow> 'n app_state
     \<Rightarrow> outcome \<times> 'n app_state" where
  "submit_data_handler L fault_save fault_load fault_refresh form st =
     (if \<not> form_valid form then (ValidationError, st)
      else
        (case new_records L form (record_id_counter st) of
           Inl (e, c) \<Rightarrow> (ValidationError, st \<lparr> record_id_counter := c \<rparr>)
         | Inr (recs, c) \<Rightarrow>
             if recs = [] then (ValidationError, st \<lparr> record_id_counter := c \<rparr>)
             else
               (Done,
                refresh_table L fault_refresh None
                  (load_emission_records L fault_load
                     (save_emission_records L fault_save
                        (st \<lparr> emission_records := emission_records st @ recs,
                              record_id_counter := c \<rparr>))))))"

text \<open>A sequence of user actions on the record cache.\<close>

datatype 'f action =
  Load db_fault
| Submit db_fault db_fault db_fault "'f entry_form"
| Delete db_fault db_fault int
| Update db_fault db_fault int edit_vars
| Filter db_fault filter_vars

definition step :: "('f, 'n) pylib \<Rightarrow> 'f action \<Rightarrow> 'n app_state \<Rightarrow> 'n app_state" where
  "step L a st =
     (case a of
        Load fault \<Rightarrow> load_emission_records L fault st
      | Submit f1 f2 f3 form \<Rightarrow> snd (submit_data_handler L f1 f2 f3 form st)
      | Delete f1 f2 record_id \<Rightarrow> snd (delete_record L f1 f2 record_id st)
      | Update f1 f2 record_id vars \<Rightarrow> snd (update_by_id L f1 f2 record_id vars st)
      | Filter fault flts \<Rightarrow> apply_filters L fault flts st)"

fun run :: "('f, 'n) pylib \<Rightarrow> 'f action list \<Rightarrow> 'n app_state \<Rightarrow> 'n app_state" where
  "run L [] st = st"
| "run L (a # as) st = run L as (step L a st)"

text \<open>
  The ids are in order: the ids of the cache are distinct and below the counter, the
  ids of the table are distinct and below the next identity value.
\<close>

definition ids_unique :: "'n app_state \<Rightarrow> bool" where
  "ids_unique st =
     (distinct (map rec_id (emission_records st)) \<and>
      list_all (\<lambda>r. rec_id r < record_id_counter st) (emission_records st))"

definition table_ok :: "'n database \<Rightarrow> bool" where
  "table_ok db =
     (distinct (map db_id (db_rows db)) \<and> list_all (\<lambda>row. db_id row < db_identity db) (db_rows db))"

definition sample_form :: "string \<Rightarrow> nat entry_form" where
  "sample_form amount_text =
     \<lparr> ef_unit = ''C-49'', ef_month = ''March'', ef_year = ''2025'', ef_entry_date = ''2025-03-07'',
       ef_email = ''manager@gmail.com'', ef_fuels = [], ef_refrigs = [], ef_elec_factor = 3,
       ef_elec_amount = amount_text, ef_elec_remarks = [], ef_elec_file = ''receipt.pdf'' \<rparr>"

section \<open>Properties\<close>

subsection \<open>The total of a record\<close>

text \<open>
  Claim C10. For every factor and every value string, \<open>update_total_value\<close> returns a
  string and never lets an exception out. It returns \<^verbatim>\<open>"0.00"\<close> on a value string
  that \<^verbatim>\<open>float\<close> does not read, the empty string among them, and also when the
  product or the format raises.
\<close>

theorem update_total_value_unparsable:
  "(\<exists>s. update_total_value L factor value_str = Inr s) \<and>
   update_total_value L factor [] = Inr ''0.00'' \<and>
   (\<forall>e. py_float L value_str = Inl e \<longrightarrow> update_total_value L factor value_str = Inr ''0.00'') \<and>
   (\<forall>e. update_total_value_try L factor value_str = Inl e \<longrightarrow>
        update_total_value L factor value_str = Inr ''0.00'')"
proof -
  have total: "\<exists>s. update_total_value L factor value_str = Inr s"
    by (cases "update_total_value_try L factor value_str") (simp_all add: update_total_value_def)
  have empty: "update_total_value L factor [] = Inr ''0.00''"
    by (simp add: update_total_value_def update_total_value_try_def py_float_def float_strip_def)
  have parse: "\<forall>e. py_float L value_str = Inl e \<longrightarrow> update_total_value L factor value_str = Inr ''0.00''"
    by (simp add: update_total_value_def update_total_value_try_def)
  have body: "\<forall>e. update_total_value_try L factor value_str = Inl e \<longrightarrow>
      update_total_value L factor value_str = Inr ''0.00''"
    by (simp add: update_total_value_def)
  from total empty parse body show ?thesis
    by (intro conjI)
qed

text \<open>
  The witness takes three strings that \<^verbatim>\<open>float\<close> rejects: one with a letter, one that
  starts with the separator \<open>0x1C\<close> (which \<^verbatim>\<open>str.strip\<close> would remove and \<^verbatim>\<open>float\<close>
  does not skip), and a blank one.
\<close>

theorem update_total_value_unparsable_witness:
  "py_float whole_lib ''12a'' = Inl ValueError \<and>
   update_total_value whole_lib 3 ''12a'' = Inr ''0.00'' \<and>
   py_float whole_lib (char_of (28::nat) # ''7'') = Inl ValueError \<and>
   update_total_value whole_lib 3 (char_of (28::nat) # ''7'') = Inr ''0.00'' \<and>
   update_total_value whole_lib 3 ''  '' = Inr ''0.00''"
proof -
  have h1: "py_float whole_lib ''12a'' = Inl ValueError"
    by code_simp
  have h2: "py_float whole_lib (char_of (28::nat) # ''7'') = Inl ValueError"
    by code_simp
  have h3: "py_float whole_lib ''  '' = Inl ValueError"
    by code_simp
  from update_total_value_unparsable [of whole_lib 3 "''12a''"] h1
  have c1: "update_total_value whole_lib 3 ''12a'' = Inr ''0.00''"
    by blast
  from update_total_value_unparsable [of whole_lib 3 "char_of (28::nat) # ''7''"] h2
  have c2: "update_total_value whole_lib 3 (char_of (28::nat) # ''7'') = Inr ''0.00''"
    by blast
  from update_total_value_unparsable [of whole_lib 3 "''  ''"] h3
  have c3: "update_total_value whole_lib 3 ''  '' = Inr ''0.00''"
    by blast
  from h1 c1 h2 c2 c3 show ?thesis
    by (intro conjI)
qed

subsection \<open>Decimal digits\<close>



















subsection \<open>Reading and writing dates\<close>





























subsection \<open>The record cache\<close>

lemma filter_loop_filter: "filter_loop flts rs acc = acc @ filter (filter_test flts) rs"
  by (induction rs arbitrary: acc) simp_all

lemma filter_test_all:
  assumes "flt_unit flts = ''All''" "flt_month flts = ''All''" "flt_year flts = ''All''"
    "flt_emission_category flts = ''All''" "flt_emission_name flts = ''All''" "flt_emission_type flts = ''All''"
  shows "filter_test flts r"
  using assms by (simp add: filter_test_def)

lemma load_fault: "fault \<noteq> No_fault \<Longrightarrow> load_emission_records L fault st = st"
  by (cases fault) (simp_all add: load_emission_records_def)

lemma load_store: "store (load_emission_records L fault st) = store st"
  by (cases fault) (simp_all add: load_emission_records_def Let_def)

lemma load_tree: "tree (load_emission_records L fault st) = tree st"
  by (cases fault) (simp_all add: load_emission_records_def Let_def)

lemma load_no_fault_records:
  "emission_records (load_emission_records L No_fault st) = map (record_of_row L) (select_all (store st))"
  by (simp add: load_emission_records_def Let_def)

text \<open>
  Claim C6. \<open>load_emission_records\<close> leaves the state, the record list and the counter
  with it, exactly as it was when the connection is refused or the read raises; the
  list is replaced, by the rows of the table, only when the read succeeds.
\<close>

theorem load_emission_records_atomic:
  "(fault \<noteq> No_fault \<longrightarrow> load_emission_records L fault st = st) \<and>
   (emission_records (load_emission_records L fault st) \<noteq> emission_records st \<longrightarrow> fault = No_fault) \<and>
   emission_records (load_emission_records L No_fault st) = map (record_of_row L) (select_all (store st))"
proof (intro conjI impI)
  assume "fault \<noteq> No_fault"
  then show "load_emission_records L fault st = st"
    by (rule load_fault)
next
  assume changed: "emission_records (load_emission_records L fault st) \<noteq> emission_records st"
  show "fault = No_fault"
  proof (rule ccontr)
    assume "fault \<noteq> No_fault"
    then have "load_emission_records L fault st = st"
      by (rule load_fault)
    with changed show False
      by simp
  qed
next
  show "emission_records (load_emission_records L No_fault st) = map (record_of_row L) (select_all (store st))"
    by (rule load_no_fault_records)
qed

theorem load_emission_records_atomic_witness:
  "Connect_fails \<noteq> No_fault \<and>
   load_emission_records whole_lib Connect_fails
     ((initial_state \<lparr> db_rows = [sample_row ''C-49'' 100 1], db_identity = 2 \<rparr>)
        \<lparr> emission_records := [sample_record ''B-37'' ''50'' ''150.00'' 0] \<rparr>) =
     (initial_state \<lparr> db_rows = [sample_row ''C-49'' 100 1], db_identity = 2 \<rparr>)
        \<lparr> emission_records := [sample_record ''B-37'' ''50'' ''150.00'' 0] \<rparr> \<and>
   emission_records (load_emission_records whole_lib No_fault
     ((initial_state \<lparr> db_rows = [sample_row ''C-49'' 100 1], db_identity = 2 \<rparr>)
        \<lparr> emission_records := [sample_record ''B-37'' ''50'' ''150.00'' 0] \<rparr>)) =
     [sample_record ''C-49'' ''100.0000'' ''300.0000'' 1 \<lparr> rec_factor := ''3.0000'' \<rparr>]"
proof -
  let ?st = "(initial_state \<lparr> db_rows = [sample_row ''C-49'' 100 1], db_identity = 2 \<rparr>)
        \<lparr> emission_records := [sample_record ''B-37'' ''50'' ''150.00'' 0] \<rparr>"
  have f: "Connect_fails \<noteq> No_fault"
    by simp
  have a: "load_emission_records whole_lib Connect_fails ?st = ?st"
    using load_emission_records_atomic [of Connect_fails whole_lib ?st] f by blast
  have "map (record_of_row whole_lib) (select_all (store ?st)) =
      [sample_record ''C-49'' ''100.0000'' ''300.0000'' 1 \<lparr> rec_factor := ''3.0000'' \<rparr>]"
    by code_simp
  then have b: "emission_records (load_emission_records whole_lib No_fault ?st) =
      [sample_record ''C-49'' ''100.0000'' ''300.0000'' 1 \<lparr> rec_factor := ''3.0000'' \<rparr>]"
    using load_emission_records_atomic [of No_fault whole_lib ?st] by simp
  from f a b show ?thesis
    by (intro conjI)
qed

lemma refresh_tree_some: "tree (refresh_table L fault (Some rs) st) = rs"
  by (simp add: refresh_table_def Let_def)

lemma refresh_store: "store (refresh_table L fault recs st) = store st"
  by (simp add: refresh_table_def Let_def load_store)

lemma refresh_records:
  "emission_records (refresh_table L fault recs st) = emission_records (load_emission_records L fault st)"
  by (simp add: refresh_table_def Let_def)

text \<open>
  Claim C9, as amended. The rows \<open>apply_filters\<close> shows are computed from the cache
  alone: they are the records of the cache that pass every criterion that is not
  \<^verbatim>\<open>"All"\<close>, in the order of the cache, and all of them when every criterion is
  \<^verbatim>\<open>"All"\<close>. The table is never written. The handler is not free of store access: it
  ends in \<open>refresh_table\<close>, which reloads the cache from the table.
\<close>

theorem apply_filters_spec:
  "tree (apply_filters L fault flts st) = filter (filter_test flts) (emission_records st) \<and>
   (flt_unit flts = ''All'' \<and> flt_month flts = ''All'' \<and> flt_year flts = ''All'' \<and>
    flt_emission_category flts = ''All'' \<and> flt_emission_name flts = ''All'' \<and>
    flt_emission_type flts = ''All'' \<longrightarrow>
      tree (apply_filters L fault flts st) = emission_records st) \<and>
   store (apply_filters L fault flts st) = store st \<and>
   emission_records (apply_filters L fault flts st) =
     emission_records (load_emission_records L fault st)"
proof (intro conjI impI)
  show shown: "tree (apply_filters L fault flts st) = filter (filter_test flts) (emission_records st)"
    by (simp add: apply_filters_def refresh_tree_some filter_loop_filter)
  show "store (apply_filters L fault flts st) = store st"
    by (simp add: apply_filters_def refresh_store)
  show "emission_records (apply_filters L fault flts st) =
      emission_records (load_emission_records L fault st)"
    by (simp add: apply_filters_def refresh_records)
  assume "flt_unit flts = ''All'' \<and> flt_month flts = ''All'' \<and> flt_year flts = ''All'' \<and>
    flt_emission_category flts = ''All'' \<and> flt_emission_name flts = ''All'' \<and>
    flt_emission_type flts = ''All''"
  then have "\<And>r. filter_test flts r"
    by (simp add: filter_test_all)
  then show "tree (apply_filters L fault flts st) = emission_records st"
    by (simp add: shown)
qed

theorem apply_filters_spec_witness:
  "tree (apply_filters whole_lib Connect_fails all_filters
      ((initial_state empty_table) \<lparr> emission_records :=
         [sample_record ''C-49'' ''100'' ''300.00'' 2, sample_record ''B-37'' ''50'' ''150.00'' 1] \<rparr>)) =
     [sample_record ''C-49'' ''100'' ''300.00'' 2, sample_record ''B-37'' ''50'' ''150.00'' 1] \<and>
   tree (apply_filters whole_lib Connect_fails (all_filters \<lparr> flt_unit := ''B-37'' \<rparr>)
      ((initial_state empty_table) \<lparr> emission_records :=
         [sample_record ''C-49'' ''100'' ''300.00'' 2, sample_record ''B-37'' ''50'' ''150.00'' 1] \<rparr>)) =
     [sample_record ''B-37'' ''50'' ''150.00'' 1]"
proof -
  let ?st = "(initial_state empty_table) \<lparr> emission_records :=
         [sample_record ''C-49'' ''100'' ''300.00'' 2, sample_record ''B-37'' ''50'' ''150.00'' 1] \<rparr>"
  have all: "flt_unit all_filters = ''All'' \<and> flt_month all_filters = ''All'' \<and> flt_year all_filters = ''All'' \<and>
    flt_emission_category all_filters = ''All'' \<and> flt_emission_name all_filters = ''All'' \<and>
    flt_emission_type all_filters = ''All''"
    by (simp add: all_filters_def)
  have recs: "emission_records ?st =
      [sample_record ''C-49'' ''100'' ''300.00'' 2, sample_record ''B-37'' ''50'' ''150.00'' 1]"
    by simp
  have a: "tree (apply_filters whole_lib Connect_fails all_filters ?st) = emission_records ?st"
    using apply_filters_spec [of whole_lib Connect_fails all_filters ?st] all by blast
  have f: "filter (filter_test (all_filters \<lparr> flt_unit := ''B-37'' \<rparr>)) (emission_records ?st) =
      [sample_record ''B-37'' ''50'' ''150.00'' 1]"
    by code_simp
  have b: "tree (apply_filters whole_lib Connect_fails (all_filters \<lparr> flt_unit := ''B-37'' \<rparr>) ?st) =
      [sample_record ''B-37'' ''50'' ''150.00'' 1]"
    using apply_filters_spec [of whole_lib Connect_fails "all_filters \<lparr> flt_unit := ''B-37'' \<rparr>" ?st] f
    by simp
  from a b recs show ?thesis
    by simp
qed

text \<open>
  The claim as stated fails: with a record in the cache that the table does not hold
  (a submission made while the server refused the connection), applying the filters
  replaces the cache by the rows of the table.
\<close>

theorem apply_filters_reloads_cache:
  "emission_records (apply_filters whole_lib No_fault all_filters
      ((initial_state empty_table) \<lparr> emission_records := [sample_record ''C-49'' ''100'' ''300.00'' 0] \<rparr>))
   \<noteq> emission_records
      ((initial_state empty_table) \<lparr> emission_records := [sample_record ''C-49'' ''100'' ''300.00'' 0] \<rparr>)"
  by code_simp










subsection \<open>Updates and store failures\<close>

lemma save_changes_not_done:
  assumes "fst (save_changes L fault fault_refresh dialog vars st) \<noteq> Done"
  shows "emission_records (snd (save_changes L fault fault_refresh dialog vars st)) = emission_records st"
proof -
  obtain r rec_index where dlg: "dialog = (r, rec_index)"
    by (cases dialog)
  show ?thesis
  proof (cases "py_float L (var_factor vars)")
    case (Inl e)
    then show ?thesis by (simp add: save_changes_def dlg)
  next
    case f: (Inr factor)
    show ?thesis
    proof (cases "update_total_value L factor (var_value vars)")
      case (Inl e)
      with f show ?thesis by (simp add: save_changes_def dlg)
    next
      case t: (Inr total_text)
      show ?thesis
      proof (cases fault)
        case No_fault
        show ?thesis
        proof (cases "update_rows L (updated_record L r vars factor total_text) (store st)")
          case None
          with f t No_fault show ?thesis by (simp add: save_changes_def dlg)
        next
          case (Some db')
          with f t No_fault assms show ?thesis
            by (simp add: save_changes_def dlg split: if_splits)
        qed
      next
        case Connect_fails
        with f t show ?thesis by (simp add: save_changes_def dlg)
      next
        case Execute_fails
        with f t show ?thesis by (simp add: save_changes_def dlg)
      qed
    qed
  qed
qed

lemma save_changes_fault:
  assumes "fault \<noteq> No_fault"
  shows "snd (save_changes L fault fault_refresh dialog vars st) = st \<and>
         fst (save_changes L fault fault_refresh dialog vars st) \<noteq> Done"
proof -
  obtain r rec_index where dlg: "dialog = (r, rec_index)"
    by (cases dialog)
  show ?thesis
  proof (cases "py_float L (var_factor vars)")
    case (Inl e)
    then show ?thesis by (simp add: save_changes_def dlg)
  next
    case f: (Inr factor)
    show ?thesis
    proof (cases "update_total_value L factor (var_value vars)")
      case (Inl e)
      with f show ?thesis by (simp add: save_changes_def dlg)
    next
      case t: (Inr total_text)
      from assms f t show ?thesis
        by (cases fault) (simp_all add: save_changes_def dlg)
    qed
  qed
qed

lemma save_changes_json_failed_write:
  assumes "rec_index < length (json_records js)"
    and "save_changes_json L True rec_index jvars js = Inr js'"
  shows "json_file js' = json_file js \<and>
         jr_amount (json_records js' ! rec_index) = jv_amount jvars \<and>
         jr_factor (json_records js' ! rec_index) = jv_factor jvars \<and>
         jr_month (json_records js' ! rec_index) = jv_month jvars \<and>
         jr_unit (json_records js' ! rec_index) = jv_unit jvars \<and>
         jr_document (json_records js' ! rec_index) = jv_document jvars"
proof (cases "py_float L (jv_factor jvars)")
  case (Inl e)
  with assms(2) show ?thesis by (simp add: save_changes_json_def)
next
  case f: (Inr factor)
  show ?thesis
  proof (cases "update_total_value L factor (jv_amount jvars)")
    case (Inl e)
    with f assms(2) show ?thesis by (simp add: save_changes_json_def)
  next
    case t: (Inr total_text)
    with f assms have "js' = js \<lparr> json_records := (json_records js)[rec_index :=
        \<lparr> jr_email = jr_email (json_records js ! rec_index),
          jr_entry_date = jr_entry_date (json_records js ! rec_index),
          jr_month = jv_month jvars, jr_unit = jv_unit jvars,
          jr_category = jv_category jvars, jr_name = jv_name jvars,
          jr_factor = jv_factor jvars, jr_amount = jv_amount jvars,
          jr_total = total_text, jr_document = jv_document jvars,
          jr_id = jr_id (json_records js ! rec_index) \<rparr>] \<rparr>"
      by (simp add: save_changes_json_def save_emission_records_json_def Let_def)
    with assms(1) show ?thesis by simp
  qed
qed

text \<open>
  Claim C7, as amended. In the SQL-backed variant \<open>save_changes\<close> changes the cached
  record only after the \<^verbatim>\<open>UPDATE\<close> and its commit have succeeded: when the connection
  is refused or the store operation fails, and on every other outcome but success, the
  cache is as it was and still holds the old field values. In the JSON-file variant
  the record is replaced in the cache before the save, and a save that fails leaves
  the new field values in the cache and the file as it was.
\<close>

theorem save_changes_store_failure:
  "(fault \<noteq> No_fault \<longrightarrow>
      snd (save_changes L fault fault_refresh dialog vars st) = st \<and>
      fst (save_changes L fault fault_refresh dialog vars st) \<noteq> Done) \<and>
   (fst (save_changes L fault fault_refresh dialog vars st) \<noteq> Done \<longrightarrow>
      emission_records (snd (save_changes L fault fault_refresh dialog vars st)) = emission_records st) \<and>
   (rec_index < length (json_records js) \<and> save_changes_json L True rec_index jvars js = Inr js' \<longrightarrow>
      json_file js' = json_file js \<and>
      jr_amount (json_records js' ! rec_index) = jv_amount jvars \<and>
      jr_factor (json_records js' ! rec_index) = jv_factor jvars \<and>
      jr_month (json_records js' ! rec_index) = jv_month jvars \<and>
      jr_unit (json_records js' ! rec_index) = jv_unit jvars \<and>
      jr_document (json_records js' ! rec_index) = jv_document jvars)"
  using save_changes_fault [of fault L fault_refresh dialog vars st]
    save_changes_not_done [of L fault fault_refresh dialog vars st]
    save_changes_json_failed_write [of rec_index js L jvars js']
  by blast

theorem save_changes_store_failure_witness:
  "Execute_fails \<noteq> No_fault \<and>
   snd (save_changes whole_lib Execute_fails No_fault (sample_record ''C-49'' ''100'' ''300.00'' 1, 0)
          (sample_vars ''200'')
          ((initial_state \<lparr> db_rows = [sample_row ''C-49'' 100 1], db_identity = 2 \<rparr>)
             \<lparr> emission_records := [sample_record ''C-49'' ''100'' ''300.00'' 1] \<rparr>)) =
     (initial_state \<lparr> db_rows = [sample_row ''C-49'' 100 1], db_identity = 2 \<rparr>)
        \<lparr> emission_records := [sample_record ''C-49'' ''100'' ''300.00'' 1] \<rparr> \<and>
   save_changes_json whole_lib True 0 (sample_json_vars ''200'')
       \<lparr> json_records = [sample_json_record ''100'' ''300.00'' 0],
         json_file = Some [sample_json_record ''100'' ''300.00'' 0] \<rparr> =
     Inr \<lparr> json_records = [sample_json_record ''200'' ''600.00'' 0],
           json_file = Some [sample_json_record ''100'' ''300.00'' 0] \<rparr> \<and>
   jr_amount (json_records \<lparr> json_records = [sample_json_record ''200'' ''600.00'' 0],
           json_file = Some [sample_json_record ''100'' ''300.00'' 0] \<rparr> ! 0) = ''200''"
proof -
  let ?st = "(initial_state \<lparr> db_rows = [sample_row ''C-49'' 100 1], db_identity = 2 \<rparr>)
        \<lparr> emission_records := [sample_record ''C-49'' ''100'' ''300.00'' 1] \<rparr>"
  let ?js = "\<lparr> json_records = [sample_json_record ''100'' ''300.00'' 0],
         json_file = Some [sample_json_record ''100'' ''300.00'' 0] \<rparr>"
  let ?js' = "\<lparr> json_records = [sample_json_record ''200'' ''600.00'' 0],
           json_file = Some [sample_json_record ''100'' ''300.00'' 0] \<rparr>"
  have f: "Execute_fails \<noteq> No_fault"
    by simp
  have i: "(0::nat) < length (json_records ?js)"
    by simp
  have j: "save_changes_json whole_lib True 0 (sample_json_vars ''200'') ?js = Inr ?js'"
    by code_simp
  have v: "jv_amount (sample_json_vars ''200'') = ''200''"
    by (simp add: sample_json_vars_def)
  note inst = save_changes_store_failure [of Execute_fails whole_lib No_fault
      "(sample_record ''C-49'' ''100'' ''300.00'' 1, 0)" "sample_vars ''200''" ?st 0 ?js "sample_json_vars ''200''" ?js']
  from inst f have a: "snd (save_changes whole_lib Execute_fails No_fault
      (sample_record ''C-49'' ''100'' ''300.00'' 1, 0) (sample_vars ''200'') ?st) = ?st"
    by blast
  from inst i j have "jr_amount (json_records ?js' ! 0) = jv_amount (sample_json_vars ''200'')"
    by blast
  with v have b: "jr_amount (json_records ?js' ! 0) = ''200''"
    by simp
  from f a j b show ?thesis
    by (intro conjI)
qed

text \<open>
  The claim as stated fails in the SQL-backed variant: after an update whose store
  operation failed, the cached record holds the old value, not the new one.
\<close>

theorem save_changes_keeps_old_values:
  "fst (save_changes whole_lib Execute_fails No_fault (sample_record ''C-49'' ''100'' ''300.00'' 1, 0)
          (sample_vars ''200'')
          ((initial_state \<lparr> db_rows = [sample_row ''C-49'' 100 1], db_identity = 2 \<rparr>)
             \<lparr> emission_records := [sample_record ''C-49'' ''100'' ''300.00'' 1] \<rparr>)) = StoreOperationFailed \<and>
   rec_value (emission_records (snd (save_changes whole_lib Execute_fails No_fault
          (sample_record ''C-49'' ''100'' ''300.00'' 1, 0) (sample_vars ''200'')
          ((initial_state \<lparr> db_rows = [sample_row ''C-49'' 100 1], db_identity = 2 \<rparr>)
             \<lparr> emission_records := [sample_record ''C-49'' ''100'' ''300.00'' 1] \<rparr>))) ! 0) = ''100'' \<and>
   var_value (sample_vars ''200'') = ''200''"
  by code_simp

end
